theory Spec2Isabelle
  imports Main
begin

section \<open>JavaScript strings\<close>

text \<open>
  A JavaScript string is a sequence of code units; it is modelled as a \<^typ>\<open>string\<close>,
  one \<^typ>\<open>char\<close> per code unit (code units 0 to 255). The operations the library
  uses (\<^verbatim>\<open>startsWith\<close>, \<^verbatim>\<open>substring\<close>, \<^verbatim>\<open>===\<close>, \<^verbatim>\<open>length\<close>) work
  position by position on code units. The empty string is the only falsy string.
\<close>

definition startsWith :: "string \<Rightarrow> string \<Rightarrow> bool" where
  \<comment> \<open>\<^verbatim>\<open>s.startsWith(p)\<close>\<close>
  "startsWith s p \<longleftrightarrow> take (length p) s = p"

definition substring :: "string \<Rightarrow> nat \<Rightarrow> string" where
  \<comment> \<open>\<^verbatim>\<open>s.substring(n)\<close>: from index n to the end; n beyond the end gives the empty string\<close>
  "substring s n = drop n s"

section \<open>Path normalisation (auth/src/path-normalization.ts)\<close>

definition normalizeApiPath :: "string \<Rightarrow> string \<Rightarrow> string" where
  "normalizeApiPath rawPath servicePrefix =
     (if rawPath = [] then ''/''
      else if servicePrefix = [] then
        (if startsWith rawPath ''/'' then rawPath else ''/'' @ rawPath)
      else
        (let path = (if startsWith rawPath ''/'' then rawPath else ''/'' @ rawPath);
             prefixPattern = ''/'' @ servicePrefix
         in if path = prefixPattern \<or> startsWith path (prefixPattern @ ''/'')
            then (let withoutPrefix = substring path (length prefixPattern)
                  in if withoutPrefix = [] then ''/'' else withoutPrefix)
            else path))"

text \<open>
  The path with its leading slash guaranteed: the expression
  \<^verbatim>\<open>rawPath.startsWith('/') ? rawPath : `/${rawPath}`\<close> of the source, named so that
  the theorems can speak of the slash-normalised path.
\<close>

definition slashNormalized :: "string \<Rightarrow> string" where
  "slashNormalized rawPath = (if startsWith rawPath ''/'' then rawPath else ''/'' @ rawPath)"

text \<open>
  A path carries the prefix when it is the pattern \<^verbatim>\<open>/prefix\<close> itself or starts with
  \<^verbatim>\<open>/prefix/\<close>: the condition of the source's \<^verbatim>\<open>if\<close>.
\<close>

definition carriesPrefix :: "string \<Rightarrow> string \<Rightarrow> bool" where
  "carriesPrefix path servicePrefix \<longleftrightarrow>
     path = ''/'' @ servicePrefix \<or> startsWith path (''/'' @ servicePrefix @ ''/'')"

definition isDigit :: "char \<Rightarrow> bool" where
  \<comment> \<open>the class \<^verbatim>\<open>\d\<close> of a JavaScript regular expression: the ASCII digits\<close>
  "isDigit c \<longleftrightarrow> c \<in> set ''0123456789''"

text \<open>
  \<^verbatim>\<open>normalizedPath.match(/^\/v(\d+)\//)\<close>: anchored at position 0, a slash, the letter v,
  one or more digits (the group), a slash. The digits are matched greedily and the next
  code unit must be a slash; giving a digit back cannot help, since the code unit after
  a shorter run is a digit. The result is \<^verbatim>\<open>`v${group}`\<close>, or null (\<^term>\<open>None\<close>).
\<close>

definition extractApiVersion :: "string \<Rightarrow> string option" where
  "extractApiVersion normalizedPath =
     (case normalizedPath of
        c1 # c2 # rest \<Rightarrow>
          if c1 = CHR ''/'' \<and> c2 = CHR ''v'' then
            (let digits = takeWhile isDigit rest;
                 after = dropWhile isDigit rest
             in if digits \<noteq> [] \<and> startsWith after ''/''
                then Some (''v'' @ digits) else None)
          else None
      | _ \<Rightarrow> None)"

text \<open>
  The second parameter has the default \<^verbatim>\<open>'v1'\<close>: an omitted argument is \<^term>\<open>None\<close>.
\<close>

definition isValidApiVersion :: "string \<Rightarrow> string option \<Rightarrow> bool" where
  "isValidApiVersion normalizedPath expectedVersionArg =
     (let expectedVersion = (case expectedVersionArg of None \<Rightarrow> ''v1'' | Some e \<Rightarrow> e);
          version = extractApiVersion normalizedPath
      in version = None \<or> version = Some expectedVersion)"


text \<open>
  Whether normalising twice differs from normalising once is decided by the path beginning
  with the prefix segment twice: \<^verbatim>\<open>/prefix/prefix\<close> or \<^verbatim>\<open>/prefix/prefix/...\<close>.
\<close>

definition repeatsPrefix :: "string \<Rightarrow> string \<Rightarrow> bool" where
  "repeatsPrefix path servicePrefix \<longleftrightarrow>
     path = ''/'' @ servicePrefix @ ''/'' @ servicePrefix \<or>
     startsWith path (''/'' @ servicePrefix @ ''/'' @ servicePrefix @ ''/'')"

section \<open>Request authorisation (auth/src/authorize.ts)\<close>

subsection \<open>Values and errors of the JavaScript runtime\<close>

text \<open>
  What \<^verbatim>\<open>secrets[key]\<close> can evaluate to. The code observes such a value in two ways only:
  its truthiness (\<^verbatim>\<open>||\<close>, \<^verbatim>\<open>&&\<close>) and strict equality with a string (\<^verbatim>\<open>===\<close>). A value
  that is neither a string nor null nor undefined (a number, a boolean, an object, an
  array, a function) is \<open>JOther\<close>, with its truthiness.
\<close>

datatype js_value = JUndefined | JNull | JString string | JOther bool

fun truthy :: "js_value \<Rightarrow> bool" where
  "truthy JUndefined = False"
| "truthy JNull = False"
| "truthy (JString s) = (s \<noteq> [])"
| "truthy (JOther b) = b"

text \<open>
  A thrown exception or a rejected promise is \<open>Inl\<close>; a returned value or a resolved
  promise is \<open>Inr\<close>. \<open>Rejected\<close> is any error of the Secrets Manager client.
\<close>

datatype js_error = Rejected | SyntaxError | TypeError

definition andThen :: "js_error + 'a \<Rightarrow> ('a \<Rightarrow> js_error + 'b) \<Rightarrow> js_error + 'b" where
  \<comment> \<open>sequencing of statements: an exception skips what follows\<close>
  "andThen m f = (case m of Inl e \<Rightarrow> Inl e | Inr x \<Rightarrow> f x)"

definition tryCatch :: "js_error + 'a \<Rightarrow> (js_error \<Rightarrow> js_error + 'a) \<Rightarrow> js_error + 'a" where
  \<comment> \<open>\<^verbatim>\<open>try { body } catch (error) { handler }\<close>\<close>
  "tryCatch body handler = (case body of Inl e \<Rightarrow> handler e | Inr x \<Rightarrow> Inr x)"

definition isWhiteSpace :: "char \<Rightarrow> bool" where
  \<comment> \<open>the code units that \<^verbatim>\<open>trim\<close> strips (WhiteSpace and LineTerminator), among 0 to 255:
      tab, line feed, vertical tab, form feed, carriage return, space, no-break space\<close>
  "isWhiteSpace c \<longleftrightarrow>
     c \<in> {CHR 0x09, CHR 0x0A, CHR 0x0B, CHR 0x0C, CHR 0x0D, CHR 0x20, CHR 0xA0}"

definition trim :: "string \<Rightarrow> string" where
  \<comment> \<open>\<^verbatim>\<open>s.trim()\<close>: white space removed from both ends\<close>
  "trim s = rev (dropWhile isWhiteSpace (rev (dropWhile isWhiteSpace s)))"

subsection \<open>The secret store\<close>

text \<open>
  The Secrets Manager client, \<^verbatim>\<open>JSON.parse\<close> and property access belong to the SDK and
  to the runtime, not to the library: they are parameters, and every theorem below holds
  for each of their behaviours.
  \<^item> \<open>send\<close>: \<^verbatim>\<open>secretsClient.send(new GetSecretValueCommand({ SecretId }))\<close>; it rejects,
    or resolves with a response, given by its \<^verbatim>\<open>SecretString\<close>, which may be undefined;
  \<^item> \<open>JSON_parse\<close>: throws on malformed text, otherwise gives the parsed value;
  \<^item> \<open>getProperty\<close>: \<^verbatim>\<open>secrets[key]\<close>; throws when \<^verbatim>\<open>secrets\<close> is null.
\<close>

record 'j secrets_env =
  send :: "string \<Rightarrow> js_error + string option"
  JSON_parse :: "string \<Rightarrow> js_error + 'j"
  getProperty :: "'j \<Rightarrow> string \<Rightarrow> js_error + js_value"

definition getSecretValue :: "'j secrets_env \<Rightarrow> string \<Rightarrow> string \<Rightarrow> js_error + js_value" where
  "getSecretValue env secretPath key =
     tryCatch
       (andThen (send env secretPath) (\<lambda>response.
          case response of
            None \<Rightarrow> Inr JNull
          | Some secretString \<Rightarrow>
              if secretString = [] then Inr JNull
              else andThen (JSON_parse env secretString) (\<lambda>secrets.
                   andThen (getProperty env secrets key) (\<lambda>v.
                   Inr (if truthy v then v else JNull)))))
       (\<lambda>error. Inr JNull)"

subsection \<open>The authoriser\<close>

text \<open>
  The result type; its field \<^verbatim>\<open>method\<close>, of type \<^verbatim>\<open>'shared-key' | 'none'\<close>, is
  \<open>authMethod\<close> here.
\<close>

datatype auth_method = SharedKey | NoMethod

record AuthResult =
  authorized :: bool
  authMethod :: auth_method

text \<open>
  What the authoriser can see of an \<^verbatim>\<open>APIGatewayProxyEvent\<close>: the headers (the object may
  be null, a header may be undefined) and, never read by the code,
  \<^verbatim>\<open>requestContext.identity.apiKeyId\<close>. As the types of the source say, the event is an
  object and a header that is present is a string. The calls of \<^verbatim>\<open>console.error\<close> in the
  two handlers only write to the log and are left out.
\<close>

record APIGatewayProxyEvent =
  headers :: "(string \<rightharpoonup> string) option"
  apiKeyId :: "string option"

record auth_options =
  sharedKeyName :: "string option"

definition header :: "APIGatewayProxyEvent \<Rightarrow> string \<Rightarrow> string option" where
  \<comment> \<open>\<^verbatim>\<open>event.headers?.[name]\<close>\<close>
  "header event name = (case headers event of None \<Rightarrow> None | Some hs \<Rightarrow> hs name)"

definition orElse :: "string option \<Rightarrow> string option \<Rightarrow> string option" where
  \<comment> \<open>\<^verbatim>\<open>a || b\<close> on values that are a string or undefined: \<open>a\<close> when truthy, else \<open>b\<close>\<close>
  "orElse a b = (case a of Some (c # cs) \<Rightarrow> a | _ \<Rightarrow> b)"

definition sharedKeyNameOf :: "auth_options option \<Rightarrow> string" where
  \<comment> \<open>\<^verbatim>\<open>const { sharedKeyName = 'AVIARY_SHARED_API_KEY' } = options || {}\<close>\<close>
  "sharedKeyNameOf options =
     (case options of
        None \<Rightarrow> ''AVIARY_SHARED_API_KEY''
      | Some opts \<Rightarrow>
          (case sharedKeyName opts of None \<Rightarrow> ''AVIARY_SHARED_API_KEY'' | Some name \<Rightarrow> name))"

definition sharedKeyOf :: "APIGatewayProxyEvent \<Rightarrow> string option" where
  \<comment> \<open>\<^verbatim>\<open>event.headers?.['X-API-Key'] || event.headers?.['x-api-key']\<close>\<close>
  "sharedKeyOf event = orElse (header event ''X-API-Key'') (header event ''x-api-key'')"

text \<open>
  The body of \<^verbatim>\<open>authorizeRequest\<close>, with the call \<^verbatim>\<open>getSecretValue(secretPath, sharedKeyName)\<close>
  as the parameter \<open>lookup\<close>, so that a statement can range over every behaviour of the
  lookup, a throwing one included. The \<^verbatim>\<open>try\<close> block either returns (\<open>Some\<close>) or falls
  through (\<open>None\<close>) to the final \<^verbatim>\<open>return\<close>.
\<close>

definition authorizeRequestWith ::
  "(string \<Rightarrow> string \<Rightarrow> js_error + js_value) \<Rightarrow> APIGatewayProxyEvent \<Rightarrow> string \<Rightarrow>
     auth_options option \<Rightarrow> js_error + AuthResult" where
  "authorizeRequestWith lookup event secretPath options =
     (let sharedKeyName = sharedKeyNameOf options;
          sharedKey = sharedKeyOf event
      in case sharedKey of
           None \<Rightarrow> Inr \<lparr>authorized = False, authMethod = NoMethod\<rparr>
         | Some key \<Rightarrow>
             if key = [] then Inr \<lparr>authorized = False, authMethod = NoMethod\<rparr>
             else
               (let trimmedKey = trim key
                in if trimmedKey = [] then Inr \<lparr>authorized = False, authMethod = NoMethod\<rparr>
                   else
                     andThen
                       (tryCatch
                          (andThen (lookup secretPath sharedKeyName) (\<lambda>expectedKey.
                             if truthy expectedKey \<and> JString trimmedKey = expectedKey
                             then Inr (Some \<lparr>authorized = True, authMethod = SharedKey\<rparr>)
                             else Inr None))
                          (\<lambda>error. Inr (Some \<lparr>authorized = False, authMethod = NoMethod\<rparr>)))
                       (\<lambda>returned.
                          case returned of
                            Some result \<Rightarrow> Inr result
                          | None \<Rightarrow> Inr \<lparr>authorized = False, authMethod = NoMethod\<rparr>)))"

definition authorizeRequest ::
  "'j secrets_env \<Rightarrow> APIGatewayProxyEvent \<Rightarrow> string \<Rightarrow> auth_options option \<Rightarrow>
     js_error + AuthResult" where
  "authorizeRequest env event secretPath options =
     authorizeRequestWith (getSecretValue env) event secretPath options"

subsection \<open>The mocked Secrets Manager of auth/tests/authorize.test.ts\<close>

text \<open>
  Two secrets exist; \<open>send\<close> rejects for every other path. The secret string is the JSON
  text of a flat object, parsed here into its list of entries. \<^verbatim>\<open>secrets[key]\<close> is the own
  entry when there is one; otherwise a property inherited from \<^verbatim>\<open>Object.prototype\<close> (a
  function or an object: truthy, and not a string); otherwise undefined.
\<close>

definition objectPrototypeNames :: "string list" where
  "objectPrototypeNames =
     [''constructor'', ''hasOwnProperty'', ''isPrototypeOf'', ''propertyIsEnumerable'',
      ''toLocaleString'', ''toString'', ''valueOf'', ''__proto__'', ''__defineGetter__'',
      ''__defineSetter__'', ''__lookupGetter__'', ''__lookupSetter__'']"

definition mockSend :: "string \<Rightarrow> js_error + string option" where
  \<open>mockSend secretId =
     (if secretId = ''/aviary/shared/api-key''
        then Inr (Some ''{"AVIARY_SHARED_API_KEY":"valid-shared-key-12345"}'')
      else if secretId = ''/aviary/test/custom-key''
        then Inr (Some ''{"CUSTOM_KEY_NAME":"custom-key-value-abc"}'')
      else Inl Rejected)\<close>

definition mockParse :: "string \<Rightarrow> js_error + (string \<times> string) list" where
  \<open>mockParse text =
     (if text = ''{"AVIARY_SHARED_API_KEY":"valid-shared-key-12345"}''
        then Inr [(''AVIARY_SHARED_API_KEY'', ''valid-shared-key-12345'')]
      else if text = ''{"CUSTOM_KEY_NAME":"custom-key-value-abc"}''
        then Inr [(''CUSTOM_KEY_NAME'', ''custom-key-value-abc'')]
      else Inl SyntaxError)\<close>

definition mockProperty :: "(string \<times> string) list \<Rightarrow> string \<Rightarrow> js_error + js_value" where
  "mockProperty secrets key =
     Inr (case map_of secrets key of
            Some v \<Rightarrow> JString v
          | None \<Rightarrow> if key \<in> set objectPrototypeNames then JOther True else JUndefined)"

definition mockEnv :: "(string \<times> string) list secrets_env" where
  "mockEnv = \<lparr>send = mockSend, JSON_parse = mockParse, getProperty = mockProperty\<rparr>"

definition eventWith :: "(string \<times> string) list \<Rightarrow> APIGatewayProxyEvent" where
  \<comment> \<open>the test events: the given headers, an empty request context\<close>
  "eventWith hs = \<lparr>headers = Some (map_of hs), apiKeyId = None\<rparr>"


section \<open>The documented result type and the deprecation header injector\<close>

text \<open>
  The README and the specification document a wider result type than the shipped one:
  four methods and an optional deprecation marker. A shipped result is read as a value
  of the documented type by \<open>asDocumented\<close>: the object literals of
  \<^verbatim>\<open>authorizeRequest\<close> have no \<^verbatim>\<open>deprecation\<close> property.
\<close>

datatype documented_method = DocSharedKey | DocLegacyApiGateway | DocLegacyBearer | DocNone

record DocumentedAuthResult =
  doc_authorized :: bool
  doc_method :: documented_method
  deprecation :: "string option"

definition asDocumented :: "AuthResult \<Rightarrow> DocumentedAuthResult" where
  "asDocumented r =
     \<lparr>doc_authorized = authorized r,
      doc_method = (case authMethod r of SharedKey \<Rightarrow> DocSharedKey | NoMethod \<Rightarrow> DocNone),
      deprecation = None\<rparr>"

definition methodName :: "documented_method \<Rightarrow> string" where
  "methodName m =
     (case m of
        DocSharedKey \<Rightarrow> ''shared-key''
      | DocLegacyApiGateway \<Rightarrow> ''legacy-api-gateway''
      | DocLegacyBearer \<Rightarrow> ''legacy-bearer''
      | DocNone \<Rightarrow> ''none'')"

text \<open>
  Modelled from the spec: \<^verbatim>\<open>addDeprecationHeaders\<close> (auth/src/deprecation.ts) is not among
  the sources; only the README, the test manifest and the specification describe it.
  Section 4.2 of the specification: a pure function; with no deprecation marker it returns
  the existing headers unchanged; with one it sets four headers and leaves the others
  alone. The headers are a \<^verbatim>\<open>Record<string, string>\<close>, a map from names to values. The
  names \<^verbatim>\<open>Sunset\<close>, \<^verbatim>\<open>Deprecation\<close>, \<^verbatim>\<open>Link\<close>, \<^verbatim>\<open>X-Auth-Method\<close> and the link value are
  those of the README and the test manifest. The reformatting of the ISO-8601 date into
  an HTTP-date, which the specification gives by one example, is the parameter
  \<open>httpDate\<close>.
\<close>

definition addDeprecationHeaders ::
  "(string \<Rightarrow> string) \<Rightarrow> (string \<rightharpoonup> string) \<Rightarrow> DocumentedAuthResult \<Rightarrow> string \<Rightarrow>
     (string \<rightharpoonup> string)" where
  \<open>addDeprecationHeaders httpDate existingHeaders authResult sunsetDate =
     (case deprecation authResult of
        None \<Rightarrow> existingHeaders
      | Some marker \<Rightarrow>
          existingHeaders
            (''Sunset'' \<mapsto> httpDate sunsetDate,
             ''Deprecation'' \<mapsto> ''true'',
             ''Link'' \<mapsto> ''<https://docs.chirpy.studio/auth-migration>; rel="deprecation"'',
             ''X-Auth-Method'' \<mapsto> methodName (doc_method authResult)))\<close>

text \<open>
  The phase summary of the library (\<^verbatim>\<open>auth/RED_PHASE_SUMMARY.md\<close>) quotes the stub that stood
  in deprecation.ts before an implementation: \<^verbatim>\<open>// STUB: Returns headers unchanged\<close>.
\<close>

definition addDeprecationHeaders_stub ::
  "(string \<rightharpoonup> string) \<Rightarrow> DocumentedAuthResult \<Rightarrow> string \<Rightarrow> (string \<rightharpoonup> string)" where
  "addDeprecationHeaders_stub existingHeaders authResult sunsetDate = existingHeaders"

section \<open>Properties of path normalisation\<close>

lemma startsWith_iff: "startsWith s p \<longleftrightarrow> (\<exists>r. s = p @ r)"
  unfolding startsWith_def
  by (metis append_eq_conv_conj append_take_drop_id)

lemma startsWith_slash: "startsWith s ''/'' \<longleftrightarrow> (\<exists>r. s = CHR ''/'' # r)"
  by (simp add: startsWith_iff)

lemma slashNormalized_starts: "\<exists>r. slashNormalized p = CHR ''/'' # r"
  by (auto simp: slashNormalized_def startsWith_slash)

lemma slashNormalized_id: "slashNormalized (CHR ''/'' # r) = CHR ''/'' # r"
  by (simp add: slashNormalized_def startsWith_def)

lemma normalizeApiPath_alt:
  "normalizeApiPath p s =
     (if s \<noteq> [] \<and> carriesPrefix (slashNormalized p) s
      then (if slashNormalized p = ''/'' @ s then ''/'' else drop (Suc (length s)) (slashNormalized p))
      else slashNormalized p)"
  by (auto simp: normalizeApiPath_def carriesPrefix_def slashNormalized_def substring_def Let_def startsWith_iff)

lemma carriesPrefix_cases:
  "carriesPrefix q s \<longleftrightarrow> q = CHR ''/'' # s \<or> (\<exists>r. q = CHR ''/'' # s @ CHR ''/'' # r)"
  by (auto simp: carriesPrefix_def startsWith_iff)

lemma repeatsPrefix_cases:
  "repeatsPrefix q s \<longleftrightarrow> (\<exists>t. q = CHR ''/'' # s @ t \<and> carriesPrefix t s)"
  by (auto simp: repeatsPrefix_def carriesPrefix_cases startsWith_iff)

lemma normalizeApiPath_strip:
  "s \<noteq> [] \<Longrightarrow> normalizeApiPath (CHR ''/'' # s @ CHR ''/'' # r) s = CHR ''/'' # r"
  by (simp add: normalizeApiPath_alt slashNormalized_id carriesPrefix_cases)

lemma normalizeApiPath_exact:
  "s \<noteq> [] \<Longrightarrow> normalizeApiPath (CHR ''/'' # s) s = ''/''"
  by (simp add: normalizeApiPath_alt slashNormalized_id carriesPrefix_cases)

lemma normalizeApiPath_keep:
  "\<not> (s \<noteq> [] \<and> carriesPrefix (CHR ''/'' # r) s) \<Longrightarrow> normalizeApiPath (CHR ''/'' # r) s = CHR ''/'' # r"
  by (auto simp add: normalizeApiPath_alt slashNormalized_id)

lemma normalizeApiPath_fixed_iff:
  "normalizeApiPath (CHR ''/'' # r) s = CHR ''/'' # r \<longleftrightarrow> \<not> (s \<noteq> [] \<and> carriesPrefix (CHR ''/'' # r) s)"
proof (cases "s \<noteq> [] \<and> carriesPrefix (CHR ''/'' # r) s")
  case False
  then show ?thesis using normalizeApiPath_keep by blast
next
  case True
  then have s: "s \<noteq> []" and c: "carriesPrefix (CHR ''/'' # r) s" by simp_all
  from c consider "r = s" | t where "r = s @ CHR ''/'' # t"
    by (auto simp: carriesPrefix_cases)
  then have "normalizeApiPath (CHR ''/'' # r) s \<noteq> CHR ''/'' # r"
  proof cases
    case 1
    then show ?thesis using s normalizeApiPath_exact [OF s] by simp
  next
    case 2
    have "length (CHR ''/'' # t) < length (CHR ''/'' # s @ CHR ''/'' # t)" by simp
    then have "CHR ''/'' # t \<noteq> CHR ''/'' # s @ CHR ''/'' # t" by (metis less_irrefl)
    then show ?thesis using 2 normalizeApiPath_strip [OF s, of t] by simp
  qed
  with True show ?thesis by simp
qed

lemma normalizeApiPath_result:
  "s \<noteq> [] \<Longrightarrow> carriesPrefix (normalizeApiPath p s) s \<longleftrightarrow> repeatsPrefix (slashNormalized p) s"
proof -
  assume s: "s \<noteq> []"
  obtain r where r: "slashNormalized p = CHR ''/'' # r" using slashNormalized_starts by blast
  have ns: "\<not> carriesPrefix ''/'' s" using s by (auto simp: carriesPrefix_cases)
  show ?thesis
  proof (cases "carriesPrefix (CHR ''/'' # r) s")
    case False
    then have "normalizeApiPath p s = CHR ''/'' # r" by (simp add: normalizeApiPath_alt r)
    moreover have "\<not> repeatsPrefix (CHR ''/'' # r) s"
      using False by (auto simp: repeatsPrefix_cases carriesPrefix_cases)
    ultimately show ?thesis using False r by simp
  next
    case True
    then consider "r = s" | t where "r = s @ CHR ''/'' # t"
      by (auto simp: carriesPrefix_cases)
    then show ?thesis
    proof cases
      case 1
      then have "normalizeApiPath p s = ''/''" using s True by (simp add: normalizeApiPath_alt r)
      moreover have "\<not> repeatsPrefix (CHR ''/'' # s) s"
        by (auto simp: repeatsPrefix_cases carriesPrefix_cases)
      ultimately show ?thesis using ns r 1 by simp
    next
      case 2
      then have "normalizeApiPath p s = CHR ''/'' # t" using s True
        by (simp add: normalizeApiPath_alt r carriesPrefix_cases)
      moreover have "repeatsPrefix (CHR ''/'' # s @ CHR ''/'' # t) s \<longleftrightarrow> carriesPrefix (CHR ''/'' # t) s"
        by (auto simp: repeatsPrefix_cases)
      ultimately show ?thesis using r 2 by simp
    qed
  qed
qed

lemma normalizeApiPath_leading: "\<exists>r. normalizeApiPath p s = CHR ''/'' # r"
proof -
  obtain r where r: "slashNormalized p = CHR ''/'' # r" using slashNormalized_starts by blast
  show ?thesis
    by (auto simp: normalizeApiPath_alt r carriesPrefix_cases)
qed

text \<open>
  Where the code is idempotent: normalising a second time changes nothing exactly when
  the prefix is empty or the slash-normalised path does not begin with the prefix segment
  twice in a row (\<^verbatim>\<open>/prefix/prefix\<close> or \<^verbatim>\<open>/prefix/prefix/...\<close>). On the input of the
  test \<^verbatim>\<open>'is idempotent - calling twice gives same result'\<close> it is.
\<close>

lemma normalizeApiPath_idempotent_unless_repeated:
  "normalizeApiPath (normalizeApiPath p s) s = normalizeApiPath p s \<longleftrightarrow>
     \<not> (s \<noteq> [] \<and> repeatsPrefix (slashNormalized p) s)"
proof -
  obtain r where r: "normalizeApiPath p s = CHR ''/'' # r" using normalizeApiPath_leading by blast
  have "normalizeApiPath (normalizeApiPath p s) s = normalizeApiPath p s \<longleftrightarrow>
        \<not> (s \<noteq> [] \<and> carriesPrefix (normalizeApiPath p s) s)"
    unfolding r by (rule normalizeApiPath_fixed_iff)
  then show ?thesis using normalizeApiPath_result [of s p] by auto
qed

lemma normalizeApiPath_idempotent_on_test_path:
  "normalizeApiPath (normalizeApiPath ''/nightingale/v1/mix/jobs'' ''nightingale'') ''nightingale''
     = normalizeApiPath ''/nightingale/v1/mix/jobs'' ''nightingale''"
proof -
  have "\<not> (''nightingale'' \<noteq> [] \<and>
            repeatsPrefix (slashNormalized ''/nightingale/v1/mix/jobs'') ''nightingale'')"
    by (simp add: repeatsPrefix_def slashNormalized_def startsWith_def)
  then show ?thesis
    by (rule normalizeApiPath_idempotent_unless_repeated [THEN iffD2])
qed

text \<open>
  C2: \<^verbatim>\<open>normalizeApiPath\<close> is to be idempotent for every raw path and service prefix, and
  the test suite states so of the function
  (\<^verbatim>\<open>'is idempotent - calling twice gives same result'\<close>). The code is not: it removes one
  leading occurrence of the prefix per call, so for a path that begins with the prefix
  segment twice the second call changes the result of the first.
  \<^verbatim>\<open>/nightingale/nightingale/v1/jobs\<close> becomes \<^verbatim>\<open>/nightingale/v1/jobs\<close>, and that becomes
  \<^verbatim>\<open>/v1/jobs\<close>.
\<close>

theorem normalizeApiPath_repeated_prefix_not_idempotent:
  "normalizeApiPath ''/nightingale/nightingale/v1/jobs'' ''nightingale'' = ''/nightingale/v1/jobs'' \<and>
   normalizeApiPath ''/nightingale/v1/jobs'' ''nightingale'' = ''/v1/jobs'' \<and>
   normalizeApiPath (normalizeApiPath ''/nightingale/nightingale/v1/jobs'' ''nightingale'') ''nightingale''
     \<noteq> normalizeApiPath ''/nightingale/nightingale/v1/jobs'' ''nightingale''"
  by (simp add: normalizeApiPath_def startsWith_def substring_def)

text \<open>
  C6: \<^verbatim>\<open>normalizeApiPath\<close> changes the slash-normalised path only when the prefix is
  non-empty and the path is the pattern \<^verbatim>\<open>/prefix\<close> itself or starts with \<^verbatim>\<open>/prefix/\<close>.
  A path equal to the pattern gives \<^verbatim>\<open>/\<close>; a path that starts with the pattern and a
  slash gives the remainder from that slash on, verbatim (doubled slashes included); a
  path that does not carry the prefix is returned as it is. In particular a segment that
  continues after the prefix characters with a code unit other than the slash is left
  alone, as \<^verbatim>\<open>/nightingale-extra/v1/jobs\<close> is against the prefix \<^verbatim>\<open>nightingale\<close>.
\<close>

theorem normalizeApiPath_segment_exact:
  "(normalizeApiPath p s \<noteq> slashNormalized p \<longrightarrow> s \<noteq> [] \<and> carriesPrefix (slashNormalized p) s) \<and>
   (slashNormalized p = ''/'' @ s \<longrightarrow> normalizeApiPath p s = ''/'') \<and>
   (s \<noteq> [] \<and> slashNormalized p = ''/'' @ s @ ''/'' @ r \<longrightarrow> normalizeApiPath p s = ''/'' @ r) \<and>
   (\<not> carriesPrefix (slashNormalized p) s \<longrightarrow> normalizeApiPath p s = slashNormalized p) \<and>
   (c \<noteq> CHR ''/'' \<longrightarrow> normalizeApiPath (''/'' @ s @ c # rest) s = ''/'' @ s @ c # rest) \<and>
   normalizeApiPath ''/nightingale-extra/v1/jobs'' ''nightingale'' = ''/nightingale-extra/v1/jobs''"
proof (intro conjI impI)
  assume "normalizeApiPath p s \<noteq> slashNormalized p"
  then show "s \<noteq> []" and "carriesPrefix (slashNormalized p) s"
    by (auto simp: normalizeApiPath_alt split: if_splits)
next
  assume "slashNormalized p = ''/'' @ s"
  then show "normalizeApiPath p s = ''/''"
    by (auto simp: normalizeApiPath_alt carriesPrefix_cases)
next
  assume "s \<noteq> [] \<and> slashNormalized p = ''/'' @ s @ ''/'' @ r"
  then show "normalizeApiPath p s = ''/'' @ r"
    by (simp add: normalizeApiPath_alt carriesPrefix_cases)
next
  assume "\<not> carriesPrefix (slashNormalized p) s"
  then show "normalizeApiPath p s = slashNormalized p"
    by (simp add: normalizeApiPath_alt)
next
  assume "c \<noteq> CHR ''/''"
  then have "\<not> carriesPrefix (CHR ''/'' # s @ c # rest) s"
    by (auto simp: carriesPrefix_cases)
  then show "normalizeApiPath (''/'' @ s @ c # rest) s = ''/'' @ s @ c # rest"
    using normalizeApiPath_keep [of s "s @ c # rest"] by simp
next
  show "normalizeApiPath ''/nightingale-extra/v1/jobs'' ''nightingale'' = ''/nightingale-extra/v1/jobs''"
    by (simp add: normalizeApiPath_def startsWith_def substring_def)
qed

text \<open>
  The cases of the test suite: a doubled slash after the prefix is kept, a path without
  leading slash that is the prefix gives the root, and neither a shorter segment nor a
  longer one is stripped.
\<close>

theorem normalizeApiPath_segment_exact_witness:
  "normalizeApiPath ''/nightingale//v1/mix/jobs'' ''nightingale'' = ''//v1/mix/jobs'' \<and>
   normalizeApiPath ''nightingale'' ''nightingale'' = ''/'' \<and>
   normalizeApiPath ''/night/v1/jobs'' ''nightingale'' = ''/night/v1/jobs'' \<and>
   normalizeApiPath ''/nightingale_v1'' ''nightingale'' = ''/nightingale_v1''"
  using normalizeApiPath_segment_exact
          [of "''/nightingale//v1/mix/jobs''" "''nightingale''" "''/v1/mix/jobs''" "CHR ''_''" "''v1''"]
        normalizeApiPath_segment_exact
          [of "''nightingale''" "''nightingale''" "[]" "CHR ''_''" "[]"]
        normalizeApiPath_segment_exact
          [of "''/night/v1/jobs''" "''nightingale''" "[]" "CHR ''_''" "[]"]
  by (simp add: slashNormalized_def startsWith_def carriesPrefix_def)

text \<open>
  C7: \<^verbatim>\<open>extractApiVersion\<close> returns \<^verbatim>\<open>v\<close> followed by the digits when, and only when, the path
  consists of \<^verbatim>\<open>/v\<close>, a non-empty run of digits, a slash and anything after it, all from
  position 0; for every other path it returns null. So it is null for a non-versioned
  path, for a version marker that is not at the start, and for the malformed markers
  \<^verbatim>\<open>/v/\<close>, \<^verbatim>\<open>/vX/\<close> and \<^verbatim>\<open>/v1test\<close>.
\<close>

theorem extractApiVersion_leading_segment:
  "(extractApiVersion p = Some v \<longleftrightarrow>
      (\<exists>ds rest. ds \<noteq> [] \<and> list_all isDigit ds \<and> p = ''/v'' @ ds @ ''/'' @ rest \<and> v = ''v'' @ ds)) \<and>
   (extractApiVersion p = None \<longleftrightarrow>
      \<not> (\<exists>ds rest. ds \<noteq> [] \<and> list_all isDigit ds \<and> p = ''/v'' @ ds @ ''/'' @ rest)) \<and>
   extractApiVersion ''/v10/test'' = Some ''v10'' \<and>
   extractApiVersion ''/health'' = None \<and>
   extractApiVersion ''/api/v1/test'' = None \<and>
   extractApiVersion ''/v/'' = None \<and>
   extractApiVersion ''/vX/'' = None \<and>
   extractApiVersion ''/v/test'' = None \<and>
   extractApiVersion ''/vX/test'' = None \<and>
   extractApiVersion ''/v1test'' = None"
proof -
  have nd: "\<not> isDigit CHR ''/''" by (simp add: isDigit_def)
  have fwd: "\<exists>ds rest. ds \<noteq> [] \<and> list_all isDigit ds \<and> p = ''/v'' @ ds @ ''/'' @ rest \<and> v = ''v'' @ ds"
    if "extractApiVersion p = Some v" for v
  proof -
    from that obtain rest0 where p: "p = CHR ''/'' # CHR ''v'' # rest0"
      and d: "takeWhile isDigit rest0 \<noteq> []"
      and a: "startsWith (dropWhile isDigit rest0) ''/''"
      and v: "v = ''v'' @ takeWhile isDigit rest0"
      by (auto simp: extractApiVersion_def Let_def split: list.splits if_splits)
    from a obtain rest where r: "dropWhile isDigit rest0 = CHR ''/'' # rest"
      by (auto simp: startsWith_slash)
    have "rest0 = takeWhile isDigit rest0 @ CHR ''/'' # rest"
      using r takeWhile_dropWhile_id [of isDigit rest0] by simp
    moreover have "list_all isDigit (takeWhile isDigit rest0)"
      by (auto simp: list_all_iff dest: set_takeWhileD)
    ultimately show ?thesis using p d v by auto
  qed
  have bwd: "extractApiVersion (''/v'' @ ds @ ''/'' @ rest) = Some (''v'' @ ds)"
    if "ds \<noteq> []" "list_all isDigit ds" for ds rest
  proof -
    have "takeWhile isDigit (ds @ CHR ''/'' # rest) = ds"
      using that nd by (simp add: list_all_iff takeWhile_append2)
    moreover have "dropWhile isDigit (ds @ CHR ''/'' # rest) = CHR ''/'' # rest"
      using that nd by (simp add: list_all_iff dropWhile_append2)
    ultimately show ?thesis using that
      by (simp add: extractApiVersion_def startsWith_def)
  qed
  have 1: "extractApiVersion p = Some v \<longleftrightarrow>
      (\<exists>ds rest. ds \<noteq> [] \<and> list_all isDigit ds \<and> p = ''/v'' @ ds @ ''/'' @ rest \<and> v = ''v'' @ ds)"
    using fwd bwd by blast
  have 2: "extractApiVersion p = None \<longleftrightarrow>
      \<not> (\<exists>ds rest. ds \<noteq> [] \<and> list_all isDigit ds \<and> p = ''/v'' @ ds @ ''/'' @ rest)"
  proof
    assume n: "extractApiVersion p = None"
    show "\<not> (\<exists>ds rest. ds \<noteq> [] \<and> list_all isDigit ds \<and> p = ''/v'' @ ds @ ''/'' @ rest)"
    proof
      assume "\<exists>ds rest. ds \<noteq> [] \<and> list_all isDigit ds \<and> p = ''/v'' @ ds @ ''/'' @ rest"
      then obtain ds rest where "ds \<noteq> []" "list_all isDigit ds" "p = ''/v'' @ ds @ ''/'' @ rest"
        by blast
      then have "extractApiVersion p = Some (''v'' @ ds)" using bwd by blast
      with n show False by simp
    qed
  next
    assume "\<not> (\<exists>ds rest. ds \<noteq> [] \<and> list_all isDigit ds \<and> p = ''/v'' @ ds @ ''/'' @ rest)"
    then have "extractApiVersion p \<noteq> Some v" for v using fwd by blast
    then show "extractApiVersion p = None" by (cases "extractApiVersion p") auto
  qed
  have 3: "extractApiVersion ''/v10/test'' = Some ''v10''"
    "extractApiVersion ''/health'' = None"
    "extractApiVersion ''/api/v1/test'' = None"
    "extractApiVersion ''/v/'' = None"
    "extractApiVersion ''/vX/'' = None"
    "extractApiVersion ''/v/test'' = None"
    "extractApiVersion ''/vX/test'' = None"
    "extractApiVersion ''/v1test'' = None"
    by (simp_all add: extractApiVersion_def startsWith_def isDigit_def)
  show ?thesis using 1 2 3 by blast
qed

text \<open>
  Two versioned paths of the test suite, the first through the characterisation.
\<close>

theorem extractApiVersion_leading_segment_witness:
  "extractApiVersion ''/v2/tts/jobs'' = Some ''v2'' \<and> extractApiVersion ''/v10/test'' = Some ''v10''"
proof -
  have "\<exists>ds rest. ds \<noteq> [] \<and> list_all isDigit ds \<and>
          ''/v2/tts/jobs'' = ''/v'' @ ds @ ''/'' @ rest \<and> ''v2'' = ''v'' @ ds"
    by (rule exI [of _ "''2''"], rule exI [of _ "''tts/jobs''"]) (simp add: isDigit_def)
  then have "extractApiVersion ''/v2/tts/jobs'' = Some ''v2''"
    by (rule extractApiVersion_leading_segment [THEN conjunct1, THEN iffD2])
  then show ?thesis
    using extractApiVersion_leading_segment [of "[]" "[]"] by simp
qed

text \<open>
  C8: for every path and expected version, \<^verbatim>\<open>isValidApiVersion\<close> is true if and only if
  \<^verbatim>\<open>extractApiVersion\<close> gives null or exactly the expected version, which is \<^verbatim>\<open>v1\<close> when
  the argument is omitted. The non-versioned path \<^verbatim>\<open>/health\<close> is valid against every
  expected version, and \<^verbatim>\<open>/v2/x\<close> is invalid against \<^verbatim>\<open>v1\<close>.
\<close>

theorem isValidApiVersion_iff:
  "(isValidApiVersion p (Some e) \<longleftrightarrow> extractApiVersion p = None \<or> extractApiVersion p = Some e) \<and>
   (isValidApiVersion p None \<longleftrightarrow> extractApiVersion p = None \<or> extractApiVersion p = Some ''v1'') \<and>
   isValidApiVersion ''/health'' None \<and>
   isValidApiVersion ''/health'' (Some e) \<and>
   isValidApiVersion ''/v1/mix/jobs'' None \<and>
   \<not> isValidApiVersion ''/v2/x'' (Some ''v1'') \<and>
   \<not> isValidApiVersion ''/v2/x'' None"
proof -
  have "isValidApiVersion p (Some e) \<longleftrightarrow> extractApiVersion p = None \<or> extractApiVersion p = Some e"
    and "isValidApiVersion p None \<longleftrightarrow> extractApiVersion p = None \<or> extractApiVersion p = Some ''v1''"
    by (simp_all add: isValidApiVersion_def Let_def)
  moreover have "extractApiVersion ''/health'' = None"
    and "extractApiVersion ''/v1/mix/jobs'' = Some ''v1''"
    and "extractApiVersion ''/v2/x'' = Some ''v2''"
    by (simp_all add: extractApiVersion_def startsWith_def isDigit_def)
  then have "isValidApiVersion ''/health'' None"
    and "isValidApiVersion ''/health'' (Some e)"
    and "isValidApiVersion ''/v1/mix/jobs'' None"
    and "\<not> isValidApiVersion ''/v2/x'' (Some ''v1'')"
    and "\<not> isValidApiVersion ''/v2/x'' None"
    by (simp_all add: isValidApiVersion_def)
  ultimately show ?thesis by blast
qed

text \<open>
  The two examples, at the expected versions \<^verbatim>\<open>v2\<close> and \<^verbatim>\<open>v1\<close>.
\<close>

theorem isValidApiVersion_iff_witness:
  "isValidApiVersion ''/health'' (Some ''v2'') \<and> \<not> isValidApiVersion ''/v2/x'' (Some ''v1'')"
  using isValidApiVersion_iff [of "[]" "''v2''"] by simp

section \<open>Properties of the authoriser\<close>

lemma trim_empty_iff: "trim s = [] \<longleftrightarrow> list_all isWhiteSpace s"
proof
  assume "list_all isWhiteSpace s"
  then have "dropWhile isWhiteSpace s = []" by (simp add: list_all_iff)
  then show "trim s = []" by (auto simp: trim_def dest: set_dropWhileD)
next
  assume t: "trim s = []"
  show "list_all isWhiteSpace s"
  proof (rule ccontr)
    assume "\<not> list_all isWhiteSpace s"
    then have ne: "dropWhile isWhiteSpace s \<noteq> []" by (simp add: list_all_iff)
    then have "\<not> isWhiteSpace (hd (dropWhile isWhiteSpace s))" by (rule hd_dropWhile)
    moreover have "hd (dropWhile isWhiteSpace s) \<in> set (dropWhile isWhiteSpace s)"
      using ne by simp
    moreover from t have "\<forall>c\<in>set (dropWhile isWhiteSpace s). isWhiteSpace c"
      by (simp add: trim_def)
    ultimately show False by blast
  qed
qed

lemma getSecretValue_returns: "\<exists>v. getSecretValue env secretPath key = Inr v"
  by (auto simp: getSecretValue_def tryCatch_def andThen_def split: sum.splits option.splits)

lemma getSecretValue_rejected:
  "send env secretPath = Inl e \<Longrightarrow> getSecretValue env secretPath key = Inr JNull"
  by (simp add: getSecretValue_def tryCatch_def andThen_def)

lemma getSecretValue_found:
  "send env secretPath = Inr (Some secretString) \<Longrightarrow> secretString \<noteq> [] \<Longrightarrow> JSON_parse env secretString = Inr secrets \<Longrightarrow>
   getProperty env secrets key = Inr (JString s) \<Longrightarrow> s \<noteq> [] \<Longrightarrow>
   getSecretValue env secretPath key = Inr (JString s)"
  by (simp add: getSecretValue_def tryCatch_def andThen_def)

lemma authorizeRequestWith_decides:
  "authorizeRequestWith lookup event secretPath options =
     Inr (if \<exists>key. sharedKeyOf event = Some key \<and> trim key \<noteq> [] \<and>
                lookup secretPath (sharedKeyNameOf options) = Inr (JString (trim key))
          then \<lparr>authorized = True, authMethod = SharedKey\<rparr>
          else \<lparr>authorized = False, authMethod = NoMethod\<rparr>)"
proof (cases "sharedKeyOf event")
  case None
  then show ?thesis by (simp add: authorizeRequestWith_def)
next
  case (Some key)
  show ?thesis
  proof (cases "trim key = []")
    case True
    then show ?thesis using Some by (simp add: authorizeRequestWith_def Let_def)
  next
    case False
    then have k: "key \<noteq> []" by (auto simp: trim_def)
    show ?thesis
    proof (cases "lookup secretPath (sharedKeyNameOf options)")
      case (Inl e)
      then show ?thesis using Some False k
        by (simp add: authorizeRequestWith_def Let_def tryCatch_def andThen_def)
    next
      case (Inr v)
      then show ?thesis using Some False k
        by (cases v) (auto simp: authorizeRequestWith_def Let_def tryCatch_def andThen_def)
    qed
  qed
qed


lemma authorizeRequest_decides:
  "authorizeRequest env event secretPath options =
     Inr (if \<exists>key. sharedKeyOf event = Some key \<and> trim key \<noteq> [] \<and>
                getSecretValue env secretPath (sharedKeyNameOf options) = Inr (JString (trim key))
          then \<lparr>authorized = True, authMethod = SharedKey\<rparr>
          else \<lparr>authorized = False, authMethod = NoMethod\<rparr>)"
  unfolding authorizeRequest_def by (rule authorizeRequestWith_decides)

lemma getSecretValue_cases:
  "getSecretValue env secretPath key = Inr JNull \<or>
   (\<exists>secretString secrets v. send env secretPath = Inr (Some secretString) \<and> secretString \<noteq> [] \<and>
      JSON_parse env secretString = Inr secrets \<and> getProperty env secrets key = Inr v \<and> truthy v \<and>
      getSecretValue env secretPath key = Inr v)"
  by (auto simp: getSecretValue_def tryCatch_def andThen_def split: sum.splits option.splits)

lemma sharedKeyOf_upper:
  "header event ''X-API-Key'' = Some v \<Longrightarrow> v \<noteq> [] \<Longrightarrow> sharedKeyOf event = Some v"
  by (cases v) (simp_all add: sharedKeyOf_def orElse_def)

lemma sharedKeyOf_lower:
  "header event ''X-API-Key'' = None \<or> header event ''X-API-Key'' = Some [] \<Longrightarrow>
   sharedKeyOf event = header event ''x-api-key''"
  by (auto simp: sharedKeyOf_def orElse_def)

lemma trim_nonempty: "trim v \<noteq> [] \<Longrightarrow> v \<noteq> []"
  by (auto simp: trim_def)

text \<open>
  C1: \<^verbatim>\<open>authorizeRequest\<close> never throws. For every event, secret path and options, and for
  every behaviour of the lookup (a value found, a missing key, an exception), the result
  is a returned value, one of \<^verbatim>\<open>{authorized: true, method: 'shared-key'}\<close> and
  \<^verbatim>\<open>{authorized: false, method: 'none'}\<close>; a lookup that throws or finds nothing gives
  the latter. \<^verbatim>\<open>getSecretValue\<close> itself always returns: null, unless the client resolved
  with a non-empty secret string that parses and holds a truthy value under the key. With
  the shipped \<^verbatim>\<open>getSecretValue\<close>, a rejecting client gives
  \<^verbatim>\<open>{authorized: false, method: 'none'}\<close>.
\<close>

theorem authorizeRequest_never_throws:
  "(authorizeRequestWith lookup event secretPath options = Inr \<lparr>authorized = True, authMethod = SharedKey\<rparr> \<or>
    authorizeRequestWith lookup event secretPath options = Inr \<lparr>authorized = False, authMethod = NoMethod\<rparr>) \<and>
   (lookup secretPath (sharedKeyNameOf options) = Inl e \<longrightarrow>
      authorizeRequestWith lookup event secretPath options = Inr \<lparr>authorized = False, authMethod = NoMethod\<rparr>) \<and>
   (lookup secretPath (sharedKeyNameOf options) = Inr v \<and> \<not> truthy v \<longrightarrow>
      authorizeRequestWith lookup event secretPath options = Inr \<lparr>authorized = False, authMethod = NoMethod\<rparr>) \<and>
   (\<exists>found. getSecretValue env secretPath key = Inr found) \<and>
   (getSecretValue env secretPath key = Inr JNull \<or>
      (\<exists>secretString secrets found. send env secretPath = Inr (Some secretString) \<and> secretString \<noteq> [] \<and>
         JSON_parse env secretString = Inr secrets \<and> getProperty env secrets key = Inr found \<and>
         truthy found \<and> getSecretValue env secretPath key = Inr found)) \<and>
   (authorizeRequest env event secretPath options = Inr \<lparr>authorized = True, authMethod = SharedKey\<rparr> \<or>
    authorizeRequest env event secretPath options = Inr \<lparr>authorized = False, authMethod = NoMethod\<rparr>) \<and>
   (send env secretPath = Inl e \<longrightarrow>
      authorizeRequest env event secretPath options = Inr \<lparr>authorized = False, authMethod = NoMethod\<rparr>) \<and>
   (getSecretValue env secretPath (sharedKeyNameOf options) = Inr JNull \<longrightarrow>
      authorizeRequest env event secretPath options = Inr \<lparr>authorized = False, authMethod = NoMethod\<rparr>)"
proof -
  have 1: "authorizeRequestWith lookup event secretPath options = Inr \<lparr>authorized = True, authMethod = SharedKey\<rparr> \<or>
    authorizeRequestWith lookup event secretPath options = Inr \<lparr>authorized = False, authMethod = NoMethod\<rparr>"
    for lookup :: "string \<Rightarrow> string \<Rightarrow> js_error + js_value"
    by (simp add: authorizeRequestWith_decides)
  have 2: "authorizeRequestWith lookup event secretPath options = Inr \<lparr>authorized = False, authMethod = NoMethod\<rparr>"
    if "lookup secretPath (sharedKeyNameOf options) = Inl e"
    using that by (simp add: authorizeRequestWith_decides)
  have 3: "authorizeRequestWith lookup event secretPath options = Inr \<lparr>authorized = False, authMethod = NoMethod\<rparr>"
    if "lookup secretPath (sharedKeyNameOf options) = Inr v \<and> \<not> truthy v"
    using that by (auto simp: authorizeRequestWith_decides)
  have 4: "authorizeRequest env event secretPath options = Inr \<lparr>authorized = False, authMethod = NoMethod\<rparr>"
    if "send env secretPath = Inl e"
    using getSecretValue_rejected [OF that] by (simp add: authorizeRequest_decides)
  have 5: "authorizeRequest env event secretPath options = Inr \<lparr>authorized = False, authMethod = NoMethod\<rparr>"
    if "getSecretValue env secretPath (sharedKeyNameOf options) = Inr JNull"
    using that by (simp add: authorizeRequest_decides)
  show ?thesis
    using 1 [of lookup] 1 [of "getSecretValue env"] 2 3 4 5
      getSecretValue_returns [of env secretPath key] getSecretValue_cases [of env secretPath key]
    unfolding authorizeRequest_def by blast
qed

text \<open>
  The test of a failing Secrets Manager: the mocked client rejects for an unknown path.
\<close>

theorem authorizeRequest_never_throws_witness:
  "send mockEnv ''/invalid/secret/path'' = Inl Rejected \<and>
   authorizeRequest mockEnv (eventWith [(''X-API-Key'', ''some-key'')]) ''/invalid/secret/path'' None
     = Inr \<lparr>authorized = False, authMethod = NoMethod\<rparr>"
proof -
  have s: "send mockEnv ''/invalid/secret/path'' = Inl Rejected"
    by (simp add: mockEnv_def mockSend_def)
  from authorizeRequest_never_throws
         [where env = mockEnv and secretPath = "''/invalid/secret/path''" and e = Rejected
            and event = "eventWith [(''X-API-Key'', ''some-key'')]" and options = None]
  have "send mockEnv ''/invalid/secret/path'' = Inl Rejected \<longrightarrow>
        authorizeRequest mockEnv (eventWith [(''X-API-Key'', ''some-key'')]) ''/invalid/secret/path'' None
          = Inr \<lparr>authorized = False, authMethod = NoMethod\<rparr>"
    by blast
  with s show ?thesis by blast
qed

text \<open>
  A request that carries both casings with different values is the case that section 4.1
  of the specification settles apart: \<^verbatim>\<open>X-API-Key\<close> is read first, and \<^verbatim>\<open>x-api-key\<close> only
  when the former is absent or empty.
\<close>

lemma authorizeRequest_upper_read_first:
  "sharedKeyOf (eventWith [(''X-API-Key'', ''invalid-key''), (''x-api-key'', ''valid-shared-key-12345'')])
     = Some ''invalid-key''"
  by (simp add: sharedKeyOf_def orElse_def header_def eventWith_def)

text \<open>
  C3: for both casings of the credential header, exactly \<^verbatim>\<open>X-API-Key\<close> and exactly
  \<^verbatim>\<open>x-api-key\<close>: if the header value is non-empty after trimming and its trimmed value
  equals the string the secret store holds under the configured key name, the result is
  \<^verbatim>\<open>{authorized: true, method: 'shared-key'}\<close>. This holds of a request that presents the
  header in either casing; of every request, when the value is the credential that the
  authoriser extracts (\<^verbatim>\<open>X-API-Key\<close>, else \<^verbatim>\<open>x-api-key\<close>); of \<^verbatim>\<open>X-API-Key\<close> whatever else the
  request carries; and of \<^verbatim>\<open>x-api-key\<close> beside an \<^verbatim>\<open>X-API-Key\<close> that is empty or has the same
  trimmed value. The key name is \<^verbatim>\<open>AVIARY_SHARED_API_KEY\<close> when the options, or their
  \<^verbatim>\<open>sharedKeyName\<close>, are omitted, and the given name otherwise.
\<close>

theorem authorizeRequest_shared_key_accepted:
  assumes "trim v \<noteq> []"
    and "send env secretPath = Inr (Some secretString)" and "secretString \<noteq> []"
    and "JSON_parse env secretString = Inr secrets"
    and "getProperty env secrets (sharedKeyNameOf options) = Inr (JString (trim v))"
  shows
    "((casing = ''X-API-Key'' \<and> other = ''x-api-key'' \<or>
       casing = ''x-api-key'' \<and> other = ''X-API-Key'') \<and>
      header event casing = Some v \<and> header event other = None \<longrightarrow>
        authorizeRequest env event secretPath options
          = Inr \<lparr>authorized = True, authMethod = SharedKey\<rparr>) \<and>
     (sharedKeyOf event = Some v \<longrightarrow>
        authorizeRequest env event secretPath options
          = Inr \<lparr>authorized = True, authMethod = SharedKey\<rparr>) \<and>
     (header event ''X-API-Key'' = Some v \<longrightarrow>
        authorizeRequest env event secretPath options
          = Inr \<lparr>authorized = True, authMethod = SharedKey\<rparr>) \<and>
     (header event ''x-api-key'' = Some v \<and>
        (header event ''X-API-Key'' = None \<or> header event ''X-API-Key'' = Some [] \<or>
         (\<exists>w. header event ''X-API-Key'' = Some w \<and> trim w = trim v)) \<longrightarrow>
        authorizeRequest env event secretPath options
          = Inr \<lparr>authorized = True, authMethod = SharedKey\<rparr>) \<and>
     sharedKeyNameOf None = ''AVIARY_SHARED_API_KEY'' \<and>
     sharedKeyNameOf (Some \<lparr>sharedKeyName = None\<rparr>) = ''AVIARY_SHARED_API_KEY'' \<and>
     sharedKeyNameOf (Some \<lparr>sharedKeyName = Some name\<rparr>) = name"
proof -
  have nonempty: "v \<noteq> []" using assms(1) by (rule trim_nonempty)
  have found: "getSecretValue env secretPath (sharedKeyNameOf options) = Inr (JString (trim v))"
    using assms(2-5) assms(1) by (rule getSecretValue_found)
  have granted: "authorizeRequest env event secretPath options
      = Inr \<lparr>authorized = True, authMethod = SharedKey\<rparr>"
    if "sharedKeyOf event = Some w" "trim w = trim v" for w
    using that found assms(1) by (auto simp: authorizeRequest_decides)
  have upper: "authorizeRequest env event secretPath options
      = Inr \<lparr>authorized = True, authMethod = SharedKey\<rparr>"
    if "header event ''X-API-Key'' = Some v"
    using that nonempty sharedKeyOf_upper granted by blast
  have lower: "authorizeRequest env event secretPath options
      = Inr \<lparr>authorized = True, authMethod = SharedKey\<rparr>"
    if "header event ''x-api-key'' = Some v"
      "header event ''X-API-Key'' = None \<or> header event ''X-API-Key'' = Some []"
    using that sharedKeyOf_lower [of event] granted [of v] by simp
  have same: "authorizeRequest env event secretPath options
      = Inr \<lparr>authorized = True, authMethod = SharedKey\<rparr>"
    if "header event ''X-API-Key'' = Some w" "trim w = trim v" for w
  proof -
    have "w \<noteq> []" using that(2) assms(1) trim_nonempty [of w] by simp
    then show ?thesis using that sharedKeyOf_upper granted by blast
  qed
  have names: "sharedKeyNameOf None = ''AVIARY_SHARED_API_KEY''"
    "sharedKeyNameOf (Some \<lparr>sharedKeyName = None\<rparr>) = ''AVIARY_SHARED_API_KEY''"
    "sharedKeyNameOf (Some \<lparr>sharedKeyName = Some name\<rparr>) = name"
    by (simp_all add: sharedKeyNameOf_def)
  show ?thesis
    using upper lower same granted [of v] names by blast
qed

text \<open>
  Tests of the suite: the lower-case header alone, with white space around the key; the
  upper-case header alone, with a custom key name.
\<close>

theorem authorizeRequest_shared_key_accepted_witness:
  "authorizeRequest mockEnv (eventWith [(''x-api-key'', ''  valid-shared-key-12345  '')])
      ''/aviary/shared/api-key'' None = Inr \<lparr>authorized = True, authMethod = SharedKey\<rparr> \<and>
   authorizeRequest mockEnv (eventWith [(''X-API-Key'', ''custom-key-value-abc'')])
      ''/aviary/test/custom-key'' (Some \<lparr>sharedKeyName = Some ''CUSTOM_KEY_NAME''\<rparr>)
      = Inr \<lparr>authorized = True, authMethod = SharedKey\<rparr>"
proof -
  have t1: "trim ''  valid-shared-key-12345  '' = ''valid-shared-key-12345''"
    by (simp add: trim_def isWhiteSpace_def)
  have a1: "trim ''  valid-shared-key-12345  '' \<noteq> []" by (simp add: t1)
  have b1: \<open>send mockEnv ''/aviary/shared/api-key''
      = Inr (Some ''{"AVIARY_SHARED_API_KEY":"valid-shared-key-12345"}'')\<close>
    by (simp add: mockEnv_def mockSend_def)
  have c1: \<open>''{"AVIARY_SHARED_API_KEY":"valid-shared-key-12345"}'' \<noteq> []\<close> by simp
  have d1: \<open>JSON_parse mockEnv ''{"AVIARY_SHARED_API_KEY":"valid-shared-key-12345"}''
      = Inr [(''AVIARY_SHARED_API_KEY'', ''valid-shared-key-12345'')]\<close>
    by (simp add: mockEnv_def mockParse_def)
  have e1: "getProperty mockEnv [(''AVIARY_SHARED_API_KEY'', ''valid-shared-key-12345'')]
      (sharedKeyNameOf None) = Inr (JString (trim ''  valid-shared-key-12345  ''))"
    by (simp add: t1 mockEnv_def mockProperty_def sharedKeyNameOf_def)
  have h1: "(''x-api-key'' = ''X-API-Key'' \<and> ''X-API-Key'' = ''x-api-key'' \<or>
       ''x-api-key'' = ''x-api-key'' \<and> ''X-API-Key'' = ''X-API-Key'') \<and>
      header (eventWith [(''x-api-key'', ''  valid-shared-key-12345  '')]) ''x-api-key''
        = Some ''  valid-shared-key-12345  '' \<and>
      header (eventWith [(''x-api-key'', ''  valid-shared-key-12345  '')]) ''X-API-Key'' = None"
    by (simp add: header_def eventWith_def)
  have 1: "authorizeRequest mockEnv (eventWith [(''x-api-key'', ''  valid-shared-key-12345  '')])
      ''/aviary/shared/api-key'' None = Inr \<lparr>authorized = True, authMethod = SharedKey\<rparr>"
    using h1
      authorizeRequest_shared_key_accepted
        [where casing = "''x-api-key''" and other = "''X-API-Key''"
           and event = "eventWith [(''x-api-key'', ''  valid-shared-key-12345  '')]",
         OF a1 b1 c1 d1 e1]
    by blast
  have t2: "trim ''custom-key-value-abc'' = ''custom-key-value-abc''"
    by (simp add: trim_def isWhiteSpace_def)
  have a2: "trim ''custom-key-value-abc'' \<noteq> []" by (simp add: t2)
  have b2: \<open>send mockEnv ''/aviary/test/custom-key''
      = Inr (Some ''{"CUSTOM_KEY_NAME":"custom-key-value-abc"}'')\<close>
    by (simp add: mockEnv_def mockSend_def)
  have c2: \<open>''{"CUSTOM_KEY_NAME":"custom-key-value-abc"}'' \<noteq> []\<close> by simp
  have d2: \<open>JSON_parse mockEnv ''{"CUSTOM_KEY_NAME":"custom-key-value-abc"}''
      = Inr [(''CUSTOM_KEY_NAME'', ''custom-key-value-abc'')]\<close>
    by (simp add: mockEnv_def mockParse_def)
  have e2: "getProperty mockEnv [(''CUSTOM_KEY_NAME'', ''custom-key-value-abc'')]
      (sharedKeyNameOf (Some \<lparr>sharedKeyName = Some ''CUSTOM_KEY_NAME''\<rparr>))
      = Inr (JString (trim ''custom-key-value-abc''))"
    by (simp add: t2 mockEnv_def mockProperty_def sharedKeyNameOf_def)
  have h2: "(''X-API-Key'' = ''X-API-Key'' \<and> ''x-api-key'' = ''x-api-key'' \<or>
       ''X-API-Key'' = ''x-api-key'' \<and> ''x-api-key'' = ''X-API-Key'') \<and>
      header (eventWith [(''X-API-Key'', ''custom-key-value-abc'')]) ''X-API-Key''
        = Some ''custom-key-value-abc'' \<and>
      header (eventWith [(''X-API-Key'', ''custom-key-value-abc'')]) ''x-api-key'' = None"
    by (simp add: header_def eventWith_def)
  have 2: "authorizeRequest mockEnv (eventWith [(''X-API-Key'', ''custom-key-value-abc'')])
      ''/aviary/test/custom-key'' (Some \<lparr>sharedKeyName = Some ''CUSTOM_KEY_NAME''\<rparr>)
      = Inr \<lparr>authorized = True, authMethod = SharedKey\<rparr>"
    using h2
      authorizeRequest_shared_key_accepted
        [where casing = "''X-API-Key''" and other = "''x-api-key''"
           and event = "eventWith [(''X-API-Key'', ''custom-key-value-abc'')]",
         OF a2 b2 c2 d2 e2]
    by blast
  show ?thesis using 1 2 by blast
qed

text \<open>
  C4: a request whose credential header value is the empty string or consists of white
  space only gets \<^verbatim>\<open>{authorized: false, method: 'none'}\<close>, for every lookup and every
  secret store. This is so when the request carries the credential header and each value
  it carries under \<^verbatim>\<open>X-API-Key\<close> and \<^verbatim>\<open>x-api-key\<close> is blank; when the value the
  authoriser reads (\<^verbatim>\<open>X-API-Key\<close>, else \<^verbatim>\<open>x-api-key\<close>) is blank; and when \<^verbatim>\<open>X-API-Key\<close>
  holds white space only, whatever \<^verbatim>\<open>x-api-key\<close> holds.
\<close>

theorem authorizeRequest_blank_key_denied:
  "((header event ''X-API-Key'' = Some v \<or> header event ''x-api-key'' = Some v) \<and>
      (\<forall>w. header event ''X-API-Key'' = Some w \<longrightarrow> list_all isWhiteSpace w) \<and>
      (\<forall>w. header event ''x-api-key'' = Some w \<longrightarrow> list_all isWhiteSpace w) \<longrightarrow>
      authorizeRequestWith lookup event secretPath options = Inr \<lparr>authorized = False, authMethod = NoMethod\<rparr> \<and>
      authorizeRequest env event secretPath options = Inr \<lparr>authorized = False, authMethod = NoMethod\<rparr>) \<and>
   (sharedKeyOf event = Some v \<and> list_all isWhiteSpace v \<longrightarrow>
      authorizeRequestWith lookup event secretPath options = Inr \<lparr>authorized = False, authMethod = NoMethod\<rparr> \<and>
      authorizeRequest env event secretPath options = Inr \<lparr>authorized = False, authMethod = NoMethod\<rparr>) \<and>
   (header event ''X-API-Key'' = Some v \<and> v \<noteq> [] \<and> list_all isWhiteSpace v \<longrightarrow>
      authorizeRequestWith lookup event secretPath options = Inr \<lparr>authorized = False, authMethod = NoMethod\<rparr> \<and>
      authorizeRequest env event secretPath options = Inr \<lparr>authorized = False, authMethod = NoMethod\<rparr>)"
proof -
  have blank: "authorizeRequestWith f event secretPath options = Inr \<lparr>authorized = False, authMethod = NoMethod\<rparr>"
    if "\<forall>w. sharedKeyOf event = Some w \<longrightarrow> list_all isWhiteSpace w"
    for f :: "string \<Rightarrow> string \<Rightarrow> js_error + js_value"
    using that by (auto simp: authorizeRequestWith_decides trim_empty_iff)
  have read: "sharedKeyOf event = Some w \<Longrightarrow>
      header event ''X-API-Key'' = Some w \<or> header event ''x-api-key'' = Some w" for w
    by (auto simp: sharedKeyOf_def orElse_def split: option.splits list.splits)
  have a: "\<forall>w. sharedKeyOf event = Some w \<longrightarrow> list_all isWhiteSpace w"
    if "(\<forall>w. header event ''X-API-Key'' = Some w \<longrightarrow> list_all isWhiteSpace w) \<and>
        (\<forall>w. header event ''x-api-key'' = Some w \<longrightarrow> list_all isWhiteSpace w)"
    using that read by blast
  have b: "\<forall>w. sharedKeyOf event = Some w \<longrightarrow> list_all isWhiteSpace w"
    if "sharedKeyOf event = Some v \<and> list_all isWhiteSpace v"
    using that by simp
  have c: "\<forall>w. sharedKeyOf event = Some w \<longrightarrow> list_all isWhiteSpace w"
    if "header event ''X-API-Key'' = Some v \<and> v \<noteq> [] \<and> list_all isWhiteSpace v"
    using that sharedKeyOf_upper [of event v] by simp
  show ?thesis
    using a b c blank [of lookup] blank [of "getSecretValue env"]
    unfolding authorizeRequest_def by blast
qed

text \<open>
  The empty key against a store that holds the empty string, the empty key against the
  mocked store, and a white-space key against a store that holds the same white space.
\<close>

theorem authorizeRequest_blank_key_denied_witness:
  "authorizeRequestWith (\<lambda>secretPath key. Inr (JString [])) (eventWith [(''X-API-Key'', [])])
      ''/aviary/shared/api-key'' None = Inr \<lparr>authorized = False, authMethod = NoMethod\<rparr> \<and>
   authorizeRequest mockEnv (eventWith [(''X-API-Key'', [])])
      ''/aviary/shared/api-key'' None = Inr \<lparr>authorized = False, authMethod = NoMethod\<rparr> \<and>
   authorizeRequestWith (\<lambda>secretPath key. Inr (JString ''   ''))
      (eventWith [(''X-API-Key'', ''   ''), (''x-api-key'', ''valid-shared-key-12345'')])
      ''/aviary/shared/api-key'' None = Inr \<lparr>authorized = False, authMethod = NoMethod\<rparr>"
proof -
  have h1: "(header (eventWith [(''X-API-Key'', [])]) ''X-API-Key'' = Some [] \<or>
             header (eventWith [(''X-API-Key'', [])]) ''x-api-key'' = Some []) \<and>
      (\<forall>w. header (eventWith [(''X-API-Key'', [])]) ''X-API-Key'' = Some w \<longrightarrow> list_all isWhiteSpace w) \<and>
      (\<forall>w. header (eventWith [(''X-API-Key'', [])]) ''x-api-key'' = Some w \<longrightarrow> list_all isWhiteSpace w)"
    by (simp add: header_def eventWith_def)
  have h2: "header (eventWith [(''X-API-Key'', ''   ''), (''x-api-key'', ''valid-shared-key-12345'')])
              ''X-API-Key'' = Some ''   '' \<and> ''   '' \<noteq> [] \<and> list_all isWhiteSpace ''   ''"
    by (simp add: header_def eventWith_def isWhiteSpace_def)
  show ?thesis
    using h1 h2
      authorizeRequest_blank_key_denied
        [where event = "eventWith [(''X-API-Key'', [])]" and v = "[]" and env = mockEnv
           and lookup = "\<lambda>secretPath key. Inr (JString [])"
           and secretPath = "''/aviary/shared/api-key''" and options = None]
      authorizeRequest_blank_key_denied
        [where event = "eventWith [(''X-API-Key'', ''   ''), (''x-api-key'', ''valid-shared-key-12345'')]"
           and v = "''   ''" and env = mockEnv
           and lookup = "\<lambda>secretPath key. Inr (JString ''   '')"
           and secretPath = "''/aviary/shared/api-key''" and options = None]
    by blast
qed

text \<open>
  C5: in every result that \<^verbatim>\<open>authorizeRequest\<close> returns, the method is \<^verbatim>\<open>'none'\<close> if and
  only if \<^verbatim>\<open>authorized\<close> is false.
\<close>

theorem authorizeRequest_method_none_iff:
  "(authorizeRequest env event secretPath options = Inr r \<longrightarrow>
      (authMethod r = NoMethod \<longleftrightarrow> authorized r = False)) \<and>
   (authorizeRequestWith lookup event secretPath options = Inr r \<longrightarrow>
      (authMethod r = NoMethod \<longleftrightarrow> authorized r = False))"
  by (auto simp: authorizeRequest_decides authorizeRequestWith_decides split: if_splits)

text \<open>
  Both results occur: the valid and the invalid key of the test suite.
\<close>

theorem authorizeRequest_method_none_iff_witness:
  "authorizeRequest mockEnv (eventWith [(''X-API-Key'', ''valid-shared-key-12345'')])
      ''/aviary/shared/api-key'' None = Inr \<lparr>authorized = True, authMethod = SharedKey\<rparr> \<and>
   (authMethod \<lparr>authorized = True, authMethod = SharedKey\<rparr> = NoMethod
      \<longleftrightarrow> authorized \<lparr>authorized = True, authMethod = SharedKey\<rparr> = False) \<and>
   authorizeRequest mockEnv (eventWith [(''X-API-Key'', ''invalid-key'')])
      ''/aviary/shared/api-key'' None = Inr \<lparr>authorized = False, authMethod = NoMethod\<rparr> \<and>
   (authMethod \<lparr>authorized = False, authMethod = NoMethod\<rparr> = NoMethod
      \<longleftrightarrow> authorized \<lparr>authorized = False, authMethod = NoMethod\<rparr> = False)"
proof -
  have g: "getSecretValue mockEnv ''/aviary/shared/api-key'' ''AVIARY_SHARED_API_KEY''
      = Inr (JString ''valid-shared-key-12345'')"
    by (simp add: getSecretValue_def tryCatch_def andThen_def mockEnv_def mockSend_def mockParse_def
        mockProperty_def)
  have 1: "authorizeRequest mockEnv (eventWith [(''X-API-Key'', ''valid-shared-key-12345'')])
      ''/aviary/shared/api-key'' None = Inr \<lparr>authorized = True, authMethod = SharedKey\<rparr>"
    by (simp add: authorizeRequest_def authorizeRequestWith_def g sharedKeyNameOf_def sharedKeyOf_def
        orElse_def header_def eventWith_def trim_def isWhiteSpace_def tryCatch_def andThen_def)
  have 2: "authorizeRequest mockEnv (eventWith [(''X-API-Key'', ''invalid-key'')])
      ''/aviary/shared/api-key'' None = Inr \<lparr>authorized = False, authMethod = NoMethod\<rparr>"
    by (simp add: authorizeRequest_def authorizeRequestWith_def g sharedKeyNameOf_def sharedKeyOf_def
        orElse_def header_def eventWith_def trim_def isWhiteSpace_def tryCatch_def andThen_def)
  show ?thesis
    using 1 2
      authorizeRequest_method_none_iff
        [where env = mockEnv and event = "eventWith [(''X-API-Key'', ''valid-shared-key-12345'')]"
           and secretPath = "''/aviary/shared/api-key''" and options = None
           and r = "\<lparr>authorized = True, authMethod = SharedKey\<rparr>"]
      authorizeRequest_method_none_iff
        [where env = mockEnv and event = "eventWith [(''X-API-Key'', ''invalid-key'')]"
           and secretPath = "''/aviary/shared/api-key''" and options = None
           and r = "\<lparr>authorized = False, authMethod = NoMethod\<rparr>"]
    by blast
qed

text \<open>
  C10: for every event, secret path and options, \<^verbatim>\<open>authorizeRequest\<close> returns a result
  whose method is \<^verbatim>\<open>'shared-key'\<close> or \<^verbatim>\<open>'none'\<close>; read in the documented type, its method
  is neither \<^verbatim>\<open>'legacy-api-gateway'\<close> nor \<^verbatim>\<open>'legacy-bearer'\<close> and it has no deprecation
  marker. There is no legacy branch: a request without the shared-key header is refused,
  whatever its \<^verbatim>\<open>Authorization\<close> header and its API Gateway key id are.
\<close>

theorem authorizeRequest_no_legacy_method:
  "(\<exists>r. authorizeRequest env event secretPath options = Inr r \<and>
        (authMethod r = SharedKey \<or> authMethod r = NoMethod) \<and>
        (doc_method (asDocumented r) = DocSharedKey \<or> doc_method (asDocumented r) = DocNone) \<and>
        doc_method (asDocumented r) \<noteq> DocLegacyApiGateway \<and>
        doc_method (asDocumented r) \<noteq> DocLegacyBearer \<and>
        deprecation (asDocumented r) = None) \<and>
   (header event ''X-API-Key'' = None \<and> header event ''x-api-key'' = None \<longrightarrow>
      authorizeRequest env event secretPath options = Inr \<lparr>authorized = False, authMethod = NoMethod\<rparr>)"
proof -
  have "sharedKeyOf event = None"
    if "header event ''X-API-Key'' = None \<and> header event ''x-api-key'' = None"
    using that by (simp add: sharedKeyOf_def orElse_def)
  then show ?thesis
    by (auto simp: authorizeRequest_decides asDocumented_def)
qed

text \<open>
  A request with a Bearer token and an API Gateway key id, and no shared-key header.
\<close>

theorem authorizeRequest_no_legacy_method_witness:
  "authorizeRequest mockEnv
     \<lparr>headers = Some [''Authorization'' \<mapsto> ''Bearer valid-shared-key-12345''],
      apiKeyId = Some ''some-api-gateway-key''\<rparr>
     ''/aviary/shared/api-key'' None = Inr \<lparr>authorized = False, authMethod = NoMethod\<rparr>"
proof -
  have "header \<lparr>headers = Some [''Authorization'' \<mapsto> ''Bearer valid-shared-key-12345''],
                 apiKeyId = Some ''some-api-gateway-key''\<rparr> ''X-API-Key'' = None \<and>
        header \<lparr>headers = Some [''Authorization'' \<mapsto> ''Bearer valid-shared-key-12345''],
                 apiKeyId = Some ''some-api-gateway-key''\<rparr> ''x-api-key'' = None"
    by (simp add: header_def)
  then show ?thesis
    using authorizeRequest_no_legacy_method
        [where env = mockEnv and secretPath = "''/aviary/shared/api-key''" and options = None
           and event = "\<lparr>headers = Some [''Authorization'' \<mapsto> ''Bearer valid-shared-key-12345''],
                          apiKeyId = Some ''some-api-gateway-key''\<rparr>"]
    by blast
qed

section \<open>Properties of the deprecation header injector\<close>

lemma addDeprecationHeaders_absent:
  "deprecation authResult = None \<Longrightarrow>
   addDeprecationHeaders httpDate existingHeaders authResult sunsetDate = existingHeaders"
  by (simp add: addDeprecationHeaders_def)

lemma addDeprecationHeaders_other:
  "name \<notin> {''Sunset'', ''Deprecation'', ''Link'', ''X-Auth-Method''} \<Longrightarrow>
   addDeprecationHeaders httpDate existingHeaders authResult sunsetDate name = existingHeaders name"
  by (simp add: addDeprecationHeaders_def split: option.splits)

lemma addDeprecationHeaders_twice:
  "addDeprecationHeaders httpDate
      (addDeprecationHeaders httpDate existingHeaders authResult sunsetDate) authResult sunsetDate
   = addDeprecationHeaders httpDate existingHeaders authResult sunsetDate"
proof (cases "deprecation authResult")
  case None
  then show ?thesis by (simp add: addDeprecationHeaders_def)
next
  case (Some marker)
  show ?thesis
  proof (rule ext)
    fix name
    show "addDeprecationHeaders httpDate
            (addDeprecationHeaders httpDate existingHeaders authResult sunsetDate) authResult sunsetDate name
          = addDeprecationHeaders httpDate existingHeaders authResult sunsetDate name"
      using Some by (simp add: addDeprecationHeaders_def)
  qed
qed

lemma addDeprecationHeaders_dom:
  "deprecation authResult = Some marker \<Longrightarrow>
   dom (addDeprecationHeaders httpDate existingHeaders authResult sunsetDate)
     = dom existingHeaders \<union> {''Sunset'', ''Deprecation'', ''Link'', ''X-Auth-Method''}"
  by (auto simp: addDeprecationHeaders_def)

text \<open>
  C9: \<^verbatim>\<open>addDeprecationHeaders\<close> is idempotent and non-destructive. Without a deprecation
  marker it returns the existing headers unchanged. With one, applying it to its own
  result with the same arguments gives that result again; every header other than the
  four it sets keeps its value; and the header names after one call and after two calls
  are the existing names and the four, each once. The stub that the phase summary quotes
  returns the headers unchanged, once or twice.
\<close>

theorem addDeprecationHeaders_idempotent:
  "(deprecation authResult = None \<longrightarrow>
      addDeprecationHeaders httpDate existingHeaders authResult sunsetDate = existingHeaders) \<and>
   addDeprecationHeaders httpDate
      (addDeprecationHeaders httpDate existingHeaders authResult sunsetDate) authResult sunsetDate
     = addDeprecationHeaders httpDate existingHeaders authResult sunsetDate \<and>
   (name \<notin> {''Sunset'', ''Deprecation'', ''Link'', ''X-Auth-Method''} \<longrightarrow>
      addDeprecationHeaders httpDate existingHeaders authResult sunsetDate name = existingHeaders name) \<and>
   (deprecation authResult = Some marker \<longrightarrow>
      dom (addDeprecationHeaders httpDate existingHeaders authResult sunsetDate)
        = dom existingHeaders \<union> {''Sunset'', ''Deprecation'', ''Link'', ''X-Auth-Method''} \<and>
      dom (addDeprecationHeaders httpDate
             (addDeprecationHeaders httpDate existingHeaders authResult sunsetDate) authResult sunsetDate)
        = dom existingHeaders \<union> {''Sunset'', ''Deprecation'', ''Link'', ''X-Auth-Method''}) \<and>
   addDeprecationHeaders_stub existingHeaders authResult sunsetDate = existingHeaders \<and>
   addDeprecationHeaders_stub (addDeprecationHeaders_stub existingHeaders authResult sunsetDate)
      authResult sunsetDate = addDeprecationHeaders_stub existingHeaders authResult sunsetDate"
  using addDeprecationHeaders_absent [of authResult httpDate existingHeaders sunsetDate]
    addDeprecationHeaders_twice [of httpDate existingHeaders authResult sunsetDate]
    addDeprecationHeaders_other [of name httpDate existingHeaders authResult sunsetDate]
    addDeprecationHeaders_dom [of authResult marker httpDate existingHeaders sunsetDate]
  by (simp add: addDeprecationHeaders_stub_def)


text \<open>
  A legacy Bearer result and a response that already has a content type.
\<close>

theorem addDeprecationHeaders_idempotent_witness:
  "addDeprecationHeaders (\<lambda>d. ''Sun, 15 Jun 2025 14:30:00 GMT'')
      [''Content-Type'' \<mapsto> ''application/json'']
      \<lparr>doc_authorized = True, doc_method = DocSharedKey, deprecation = None\<rparr>
      ''2025-06-15T14:30:00Z'' = [''Content-Type'' \<mapsto> ''application/json''] \<and>
   addDeprecationHeaders (\<lambda>d. ''Sun, 15 Jun 2025 14:30:00 GMT'')
      (addDeprecationHeaders (\<lambda>d. ''Sun, 15 Jun 2025 14:30:00 GMT'')
         [''Content-Type'' \<mapsto> ''application/json'']
         \<lparr>doc_authorized = True, doc_method = DocLegacyBearer, deprecation = Some ''legacy''\<rparr>
         ''2025-06-15T14:30:00Z'')
      \<lparr>doc_authorized = True, doc_method = DocLegacyBearer, deprecation = Some ''legacy''\<rparr>
      ''2025-06-15T14:30:00Z'' ''Content-Type'' = Some ''application/json'' \<and>
   dom (addDeprecationHeaders (\<lambda>d. ''Sun, 15 Jun 2025 14:30:00 GMT'')
      (addDeprecationHeaders (\<lambda>d. ''Sun, 15 Jun 2025 14:30:00 GMT'')
         [''Content-Type'' \<mapsto> ''application/json'']
         \<lparr>doc_authorized = True, doc_method = DocLegacyBearer, deprecation = Some ''legacy''\<rparr>
         ''2025-06-15T14:30:00Z'')
      \<lparr>doc_authorized = True, doc_method = DocLegacyBearer, deprecation = Some ''legacy''\<rparr>
      ''2025-06-15T14:30:00Z'')
     = {''Content-Type'', ''Sunset'', ''Deprecation'', ''Link'', ''X-Auth-Method''}"
  using addDeprecationHeaders_idempotent
      [where httpDate = "\<lambda>d. ''Sun, 15 Jun 2025 14:30:00 GMT''"
         and existingHeaders = "[''Content-Type'' \<mapsto> ''application/json'']"
         and authResult = "\<lparr>doc_authorized = True, doc_method = DocSharedKey, deprecation = None\<rparr>"
         and sunsetDate = "''2025-06-15T14:30:00Z''" and name = "''Content-Type''"
         and marker = "''legacy''"]
    addDeprecationHeaders_idempotent
      [where httpDate = "\<lambda>d. ''Sun, 15 Jun 2025 14:30:00 GMT''"
         and existingHeaders = "[''Content-Type'' \<mapsto> ''application/json'']"
         and authResult = "\<lparr>doc_authorized = True, doc_method = DocLegacyBearer,
                            deprecation = Some ''legacy''\<rparr>"
         and sunsetDate = "''2025-06-15T14:30:00Z''" and name = "''Content-Type''"
         and marker = "''legacy''"]
  by auto

end
